theory Spec2Isabelle
  imports Main "HOL-Library.Word"
begin

section \<open>Values of the Python program\<close>

text \<open>
  The bot (\<^verbatim>\<open>src/bot.py\<close>) reads JSON documents twice: the webhook body
  (\<^verbatim>\<open>request.json\<close>) and the reply of the GitHub issue API
  (\<^verbatim>\<open>response.json()\<close>). A parsed document is a Python value built from
  \<^verbatim>\<open>None\<close>, booleans, integers, strings, lists and dicts. Text is a
  \<^typ>\<open>string\<close>: the characters are read as the code points below 256. A dict is
  the list of its items; a parsed dict has each key once. JSON numbers with a
  fraction are left out.
\<close>

datatype json =
    JNull
  | JBool bool
  | JNum int
  | JStr string
  | JArr "json list"
  | JObj "(string \<times> json) list"

text \<open>The exceptions that reach the web framework uncaught.\<close>

datatype py_error =
    KeyError
  | TypeError
  | AttributeError
  | ValueError
  | ConnectionError

type_synonym byte = "8 word"

subsection \<open>Python operations on parsed values\<close>

text \<open>\<^verbatim>\<open>d.get(k)\<close>: only a dict has the method; a missing key gives \<^verbatim>\<open>None\<close>.\<close>

fun py_get :: "json \<Rightarrow> string \<Rightarrow> py_error + json" where
  "py_get (JObj kvs) k = (case map_of kvs k of None \<Rightarrow> Inr JNull | Some v \<Rightarrow> Inr v)"
| "py_get _ k = Inl AttributeError"

text \<open>\<^verbatim>\<open>d.get(k, [])\<close>, the same with the empty list as the default.\<close>

fun py_get_default_list :: "json \<Rightarrow> string \<Rightarrow> py_error + json" where
  "py_get_default_list (JObj kvs) k = (case map_of kvs k of None \<Rightarrow> Inr (JArr []) | Some v \<Rightarrow> Inr v)"
| "py_get_default_list _ k = Inl AttributeError"

text \<open>
  \<^verbatim>\<open>d[k]\<close> with a string key: a dict without the key raises KeyError, every other
  value raises TypeError (a list or a string wants an integer index, the rest is
  not subscriptable).
\<close>

fun py_index :: "json \<Rightarrow> string \<Rightarrow> py_error + json" where
  "py_index (JObj kvs) k = (case map_of kvs k of None \<Rightarrow> Inl KeyError | Some v \<Rightarrow> Inr v)"
| "py_index _ k = Inl TypeError"

text \<open>Truth value of a Python object, as \<^verbatim>\<open>if\<close>, \<^verbatim>\<open>and\<close>, \<^verbatim>\<open>or\<close> take it.\<close>

fun py_truthy :: "json \<Rightarrow> bool" where
  "py_truthy JNull = False"
| "py_truthy (JBool b) = b"
| "py_truthy (JNum n) = (n \<noteq> 0)"
| "py_truthy (JStr s) = (s \<noteq> [])"
| "py_truthy (JArr xs) = (xs \<noteq> [])"
| "py_truthy (JObj kvs) = (kvs \<noteq> [])"

text \<open>
  \<^verbatim>\<open>for x in v\<close>: a list gives its elements, a dict its keys, a string its
  characters; nothing else is iterable.
\<close>

fun py_iter :: "json \<Rightarrow> py_error + json list" where
  "py_iter (JArr xs) = Inr xs"
| "py_iter (JObj kvs) = Inr (map (\<lambda>kv. JStr (fst kv)) kvs)"
| "py_iter (JStr s) = Inr (map (\<lambda>c. JStr [c]) s)"
| "py_iter _ = Inl TypeError"

text \<open>
  \<^verbatim>\<open>str.lower()\<close> on the code points below 256: the ASCII capitals and the
  Latin-1 capitals (192 to 222 without the multiplication sign 215) move up by 32.
\<close>

definition lower_char :: "char \<Rightarrow> char" where
  "lower_char c =
     (let n = (of_char c :: nat) in
      if (65 \<le> n \<and> n \<le> 90) \<or> (192 \<le> n \<and> n \<le> 222 \<and> n \<noteq> 215)
      then char_of (n + 32) else c)"

definition py_lower :: "string \<Rightarrow> string" where
  "py_lower s = map lower_char s"

text \<open>\<^verbatim>\<open>v.lower()\<close> on a parsed value: only a string has the method.\<close>

fun py_lower_value :: "json \<Rightarrow> py_error + string" where
  "py_lower_value (JStr s) = Inr (py_lower s)"
| "py_lower_value _ = Inl AttributeError"

text \<open>\<^verbatim>\<open>str(n)\<close> for a natural number, as an f-string renders it.\<close>

definition digit_char :: "nat \<Rightarrow> char" where
  "digit_char d = char_of (48 + d)"

fun str_of_nat :: "nat \<Rightarrow> string" where
  "str_of_nat n = (if n < 10 then [digit_char n] else str_of_nat (n div 10) @ [digit_char (n mod 10)])"

declare str_of_nat.simps [simp del]

section \<open>The issue-label scorer\<close>

text \<open>
  What \<^verbatim>\<open>requests.get(url)\<close> does is the network's choice, not the program's:
  the call raises when no reply arrives (\<^verbatim>\<open>requests.exceptions.ConnectionError\<close>),
  and otherwise returns a reply with a status code and a body, whose
  \<^verbatim>\<open>.json()\<close> raises a ValueError when the body is not JSON. The source
  sets no timeout and has no handler around the call.
\<close>

datatype http_outcome =
    NoReply
  | Reply int "json option"

text \<open>
  The set comprehension of line 79,
  \<^verbatim>\<open>{label['name'].lower() for label in data.get('labels', [])}\<close>,
  evaluated element by element; the first element that raises ends it.
\<close>

fun label_names :: "json list \<Rightarrow> py_error + string list" where
  "label_names [] = Inr []"
| "label_names (l # ls) =
     (case py_index l ''name'' of
        Inl e \<Rightarrow> Inl e
      | Inr nm \<Rightarrow>
         (case py_lower_value nm of
            Inl e \<Rightarrow> Inl e
          | Inr s \<Rightarrow>
             (case label_names ls of
                Inl e \<Rightarrow> Inl e
              | Inr ss \<Rightarrow> Inr (s # ss))))"

text \<open>Lines 80 to 83: the precedence table over the set of lowered names.\<close>

definition points_of_labels :: "string list \<Rightarrow> int" where
  "points_of_labels labels =
     (if ''hard'' \<in> set labels then 20
      else if ''medium'' \<in> set labels then 10
      else if ''easy'' \<in> set labels then 5
      else 0)"

definition issue_url :: "string \<Rightarrow> nat \<Rightarrow> string" where
  "issue_url repo_name issue_number =
     ''https://api.github.com/repos/'' @ repo_name @ ''/issues/'' @ str_of_nat issue_number"

text \<open>
  \<^verbatim>\<open>get_points_from_pr_labels\<close> (lines 71 to 83). The first argument is the
  network: what \<^verbatim>\<open>requests.get\<close> does at each URL.
\<close>

definition get_points_from_pr_labels ::
  "(string \<Rightarrow> http_outcome) \<Rightarrow> string \<Rightarrow> nat \<Rightarrow> py_error + int" where
  "get_points_from_pr_labels requests_get repo_name issue_number =
     (case requests_get (issue_url repo_name issue_number) of
        NoReply \<Rightarrow> Inl ConnectionError
      | Reply status_code body \<Rightarrow>
          if status_code \<noteq> 200 then Inr 0
          else (case body of
                  None \<Rightarrow> Inl ValueError
                | Some data \<Rightarrow>
                   (case py_get_default_list data ''labels'' of
                      Inl e \<Rightarrow> Inl e
                    | Inr ls \<Rightarrow>
                       (case py_iter ls of
                          Inl e \<Rightarrow> Inl e
                        | Inr items \<Rightarrow>
                           (case label_names items of
                              Inl e \<Rightarrow> Inl e
                            | Inr labels \<Rightarrow> Inr (points_of_labels labels))))))"


section \<open>The tables\<close>

text \<open>
  Modelled from the spec: the declarations of the two tables are made outside
  \<^verbatim>\<open>src/\<close>; the persisted layout of the spec gives
  \<^verbatim>\<open>repositories(id PK, guild_id UNIQUE, repo_name, webhook_secret, channel_id, admin_user_id)\<close>
  and \<^verbatim>\<open>scores(repo_id, github_username, points)\<close>. A table is the list of
  its rows in insertion order. The contributor handle is kept as the payload
  carries it.
\<close>

record repository =
  row_id :: nat
  row_guild_id :: int
  row_repo_name :: string
  row_webhook_secret :: string
  row_channel_id :: int
  row_admin_user_id :: int

record score =
  score_repo_id :: nat
  score_username :: json
  score_points :: int

record db =
  repositories :: "repository list"
  scores :: "score list"
  repositories_seq :: nat

definition empty_db :: db where
  "empty_db = \<lparr>repositories = [], scores = [], repositories_seq = 1\<rparr>"

subsection \<open>update\_score (lines 54 to 69)\<close>

definition score_matches :: "nat \<Rightarrow> json \<Rightarrow> score \<Rightarrow> bool" where
  "score_matches repo username s = (score_repo_id s = repo \<and> score_username s = username)"

text \<open>Lines 59 and 60: the SELECT and \<^verbatim>\<open>fetchone()\<close>, the points of the first matching row.\<close>

definition select_points :: "db \<Rightarrow> nat \<Rightarrow> json \<Rightarrow> int option" where
  "select_points d repo username =
     (case filter (score_matches repo username) (scores d) of
        [] \<Rightarrow> None
      | s # _ \<Rightarrow> Some (score_points s))"

text \<open>
  Lines 61 to 66: with a fetched row, the UPDATE stores the sum computed by the
  client in every matching row; without one, the INSERT adds a row.
\<close>

definition write_points :: "db \<Rightarrow> nat \<Rightarrow> json \<Rightarrow> int \<Rightarrow> int option \<Rightarrow> db" where
  "write_points d repo username points_to_add result =
     (case result of
        Some old \<Rightarrow>
          d\<lparr>scores := map (\<lambda>s. if score_matches repo username s
                                 then s\<lparr>score_points := old + points_to_add\<rparr> else s) (scores d)\<rparr>
      | None \<Rightarrow>
          d\<lparr>scores := scores d @
             [\<lparr>score_repo_id = repo, score_username = username, score_points = points_to_add\<rparr>]\<rparr>)"

text \<open>The function has no return statement: its only result is the new table.\<close>

definition update_score :: "db \<Rightarrow> nat \<Rightarrow> json \<Rightarrow> int \<Rightarrow> db" where
  "update_score d repo username points_to_add =
     write_points d repo username points_to_add (select_points d repo username)"

subsection \<open>Calls of update\_score that overlap\<close>





subsection \<open>register (lines 89 to 123)\<close>



subsection \<open>leaderboard (lines 131 to 151)\<close>



section \<open>The webhook\<close>

subsection \<open>Signature check (lines 171 to 178)\<close>

text \<open>\<^verbatim>\<open>str.encode('utf-8')\<close> on code points below 256: one byte below 128, two above.\<close>

definition utf8_char :: "char \<Rightarrow> byte list" where
  "utf8_char c =
     (let n = (of_char c :: nat) in
      if n < 128 then [of_nat n] else [of_nat (192 + n div 64), of_nat (128 + n mod 64)])"

definition utf8_encode :: "string \<Rightarrow> byte list" where
  "utf8_encode s = concat (map utf8_char s)"

text \<open>\<^verbatim>\<open>hexdigest()\<close>: two lowercase hexadecimal digits for each byte of the digest.\<close>

definition hex_digit :: "nat \<Rightarrow> char" where
  "hex_digit n = (if n < 10 then char_of (48 + n) else char_of (87 + n))"

definition hex_byte :: "byte \<Rightarrow> string" where
  "hex_byte b = [hex_digit (unat b div 16), hex_digit (unat b mod 16)]"

definition hexdigest :: "byte list \<Rightarrow> string" where
  "hexdigest bs = concat (map hex_byte bs)"

definition is_ascii :: "string \<Rightarrow> bool" where
  "is_ascii s = list_all (\<lambda>c. (of_char c :: nat) < 128) s"

text \<open>
  \<^verbatim>\<open>hmac.compare_digest\<close> on two \<^verbatim>\<open>str\<close> arguments compares them when both
  are ASCII and raises TypeError otherwise.
\<close>

definition compare_digest :: "string \<Rightarrow> string \<Rightarrow> py_error + bool" where
  "compare_digest a b = (if is_ascii a \<and> is_ascii b then Inr (a = b) else Inl TypeError)"

definition startswith :: "string \<Rightarrow> string \<Rightarrow> bool" where
  "startswith s p = (take (length p) s = p)"

text \<open>
  Lines 175 and 176. \<^verbatim>\<open>hmac_sha256 key msg\<close> stands for the digest bytes of
  \<^verbatim>\<open>hmac.new(key, msg=msg, digestmod=hashlib.sha256)\<close>, a function of the
  standard library.
\<close>

definition expected_signature ::
  "(byte list \<Rightarrow> byte list \<Rightarrow> byte list) \<Rightarrow> string \<Rightarrow> byte list \<Rightarrow> string" where
  "expected_signature hmac_sha256 repo_secret data =
     ''sha256='' @ hexdigest (hmac_sha256 (utf8_encode repo_secret) data)"

subsection \<open>The closing keyword (line 190)\<close>

text \<open>
  \<^verbatim>\<open>re.search(r"(?:close|closes|closed|fix|fixes|fixed|resolve|resolves|resolved)\s#(\d+)", pr_body, re.IGNORECASE)\<close>.
  On code points below 256, \<^verbatim>\<open>\s\<close> takes the six ASCII blanks, the four
  separators 28 to 31, NEL (133) and the no-break space (160); \<^verbatim>\<open>\d\<close> takes
  the ten ASCII digits; a letter of the pattern takes itself in either case.
\<close>

definition closing_keywords :: "string list" where
  "closing_keywords = [''close'', ''closes'', ''closed'', ''fix'', ''fixes'', ''fixed'',
               ''resolve'', ''resolves'', ''resolved'']"

definition is_space :: "char \<Rightarrow> bool" where
  "is_space c =
     (let n = (of_char c :: nat) in
      (9 \<le> n \<and> n \<le> 13) \<or> (28 \<le> n \<and> n \<le> 32) \<or> n = 133 \<or> n = 160)"

definition is_digit :: "char \<Rightarrow> bool" where
  "is_digit c = (let n = (of_char c :: nat) in 48 \<le> n \<and> n \<le> 57)"

text \<open>The text after a keyword that matches at the head of the subject, if there is one.\<close>

fun match_keyword :: "string \<Rightarrow> string \<Rightarrow> string option" where
  "match_keyword [] s = Some s"
| "match_keyword (k # ks) [] = None"
| "match_keyword (k # ks) (c # cs) =
     (if lower_char c = k then match_keyword ks cs else None)"

text \<open>\<^verbatim>\<open>\s#(\d+)\<close>: one blank, the hash sign, and the longest run of digits, not empty.\<close>

fun match_reference :: "string \<Rightarrow> string option" where
  "match_reference (w # h # cs) =
     (if is_space w \<and> h = CHR ''#'' \<and> takeWhile is_digit cs \<noteq> []
      then Some (takeWhile is_digit cs) else None)"
| "match_reference _ = None"

text \<open>The alternatives in the order of the pattern; a later one is tried when what follows an earlier one fails.\<close>

fun match_alternatives :: "string list \<Rightarrow> string \<Rightarrow> string option" where
  "match_alternatives [] s = None"
| "match_alternatives (k # ks) s =
     (case match_keyword k s of
        None \<Rightarrow> match_alternatives ks s
      | Some rest \<Rightarrow>
         (case match_reference rest of
            None \<Rightarrow> match_alternatives ks s
          | Some ds \<Rightarrow> Some ds))"

text \<open>\<^verbatim>\<open>re.search\<close> tries each start from the left; the result is group 1 of the first match.\<close>

fun re_search :: "string \<Rightarrow> string option" where
  "re_search [] = match_alternatives closing_keywords []"
| "re_search (c # cs) =
     (case match_alternatives closing_keywords (c # cs) of
        None \<Rightarrow> re_search cs
      | Some ds \<Rightarrow> Some ds)"

text \<open>\<^verbatim>\<open>int(s)\<close> on a string of decimal digits.\<close>

definition int_of_digits :: "string \<Rightarrow> nat" where
  "int_of_digits ds = foldl (\<lambda>acc c. 10 * acc + (of_char c - 48)) 0 ds"

subsection \<open>Reading the payload (lines 181 to 195)\<close>

datatype extraction =
    NoEvent
  | ScoringEvent json json json json nat

text \<open>
  The fields of a scoring event are \<^verbatim>\<open>username\<close>, \<^verbatim>\<open>pr_number\<close>,
  \<^verbatim>\<open>pr_title\<close>, \<^verbatim>\<open>pr_url\<close> and \<^verbatim>\<open>issue_number\<close>. The right operand of
  \<^verbatim>\<open>and\<close> at line 182 runs only when the action is \<^verbatim>\<open>'closed'\<close>;
  \<^verbatim>\<open>re.search\<close> raises TypeError on a body that is not a string.
  \<^verbatim>\<open>and_then\<close> runs the next statement unless the one before raised;
  \<^verbatim>\<open>search_body\<close> is lines 188 to 195.
\<close>

definition and_then :: "py_error + 'a \<Rightarrow> ('a \<Rightarrow> py_error + 'b) \<Rightarrow> py_error + 'b" where
  "and_then r f = (case r of Inl e \<Rightarrow> Inl e | Inr v \<Rightarrow> f v)"

definition search_body :: "json \<Rightarrow> json \<Rightarrow> json \<Rightarrow> json \<Rightarrow> json \<Rightarrow> py_error + extraction" where
  "search_body username pr_number pr_title pr_url b =
     (case (if py_truthy b then b else JStr []) of
        JStr pr_body \<Rightarrow>
          (case re_search pr_body of
             None \<Rightarrow> Inr NoEvent
           | Some ds \<Rightarrow> Inr (ScoringEvent username pr_number pr_title pr_url (int_of_digits ds)))
      | _ \<Rightarrow> Inl TypeError)"

definition extract_event :: "json \<Rightarrow> py_error + extraction" where
  "extract_event data =
     and_then (py_get data ''action'') (\<lambda>action.
       if action \<noteq> JStr ''closed'' then Inr NoEvent
       else and_then (py_index data ''pull_request'') (\<lambda>pr.
         and_then (py_index pr ''merged'') (\<lambda>merged.
           if \<not> py_truthy merged then Inr NoEvent
           else and_then (py_index pr ''user'') (\<lambda>user.
             and_then (py_index user ''login'') (\<lambda>username.
               and_then (py_index pr ''number'') (\<lambda>pr_number.
                 and_then (py_index pr ''title'') (\<lambda>pr_title.
                   and_then (py_index pr ''html_url'') (\<lambda>pr_url.
                     and_then (py_get pr ''body'') (\<lambda>b.
                       search_body username pr_number pr_title pr_url b)))))))))"

subsection \<open>The handler (lines 156 to 206)\<close>

text \<open>
  A request: the header \<^verbatim>\<open>X-Hub-Signature-256\<close> if present, the raw body
  \<^verbatim>\<open>request.data\<close>, and what \<^verbatim>\<open>request.json\<close> makes of the body: a parsed
  value, or the error status with which the framework rejects it.
\<close>

datatype parsed_body = Rejected nat | Parsed json

record request =
  req_signature :: "string option"
  req_data :: "byte list"
  req_json :: parsed_body

text \<open>
  The surroundings of the handler: the digest function of the standard
  library, the network, and whether \<^verbatim>\<open>bot.get_channel\<close> finds a channel.
\<close>

record env =
  hmac_sha256 :: "byte list \<Rightarrow> byte list \<Rightarrow> byte list"
  requests_get :: "string \<Rightarrow> http_outcome"
  get_channel :: "int \<Rightarrow> bool"

text \<open>The message of lines 202 to 205, handed to the event loop.\<close>

record notification =
  note_channel :: int
  note_title :: json
  note_url :: json
  note_contributor :: json
  note_points :: int

text \<open>A request ends with a status code or with an exception nobody catches.\<close>

datatype outcome = Response nat | Uncaught py_error

record result =
  res_outcome :: outcome
  res_db :: db
  res_notes :: "notification list"

definition respond :: "db \<Rightarrow> outcome \<Rightarrow> result" where
  "respond d out = \<lparr>res_outcome = out, res_db = d, res_notes = []\<rparr>"

text \<open>Lines 196 to 206, after a scoring event was read.\<close>

definition score_and_award ::
  "env \<Rightarrow> db \<Rightarrow> nat \<Rightarrow> repository \<Rightarrow> extraction \<Rightarrow> result" where
  "score_and_award e d repo cfg ev =
     (case ev of
        NoEvent \<Rightarrow> respond d (Response 204)
      | ScoringEvent username pr_number pr_title pr_url issue_number \<Rightarrow>
         (case get_points_from_pr_labels (requests_get e) (row_repo_name cfg) issue_number of
            Inl err \<Rightarrow> respond d (Uncaught err)
          | Inr points \<Rightarrow>
              if points > 0
              then \<lparr>res_outcome = Response 204,
                    res_db = update_score d repo username points,
                    res_notes =
                      (if get_channel e (row_channel_id cfg)
                       then [\<lparr>note_channel = row_channel_id cfg, note_title = pr_title,
                              note_url = pr_url, note_contributor = username,
                              note_points = points\<rparr>]
                       else [])\<rparr>
              else respond d (Response 204)))"

definition github_webhook :: "env \<Rightarrow> db \<Rightarrow> nat \<Rightarrow> request \<Rightarrow> result" where
  "github_webhook e d repo rq =
     (case find (\<lambda>r. row_id r = repo) (repositories d) of
        None \<Rightarrow> respond d (Response 404)
      | Some cfg \<Rightarrow>
         (case req_signature rq of
            None \<Rightarrow> respond d (Response 400)
          | Some signature \<Rightarrow>
              if signature = [] \<or> \<not> startswith signature ''sha256='' then respond d (Response 400)
              else
                (case compare_digest
                        (expected_signature (hmac_sha256 e) (row_webhook_secret cfg) (req_data rq))
                        signature of
                   Inl err \<Rightarrow> respond d (Uncaught err)
                 | Inr False \<Rightarrow> respond d (Response 403)
                 | Inr True \<Rightarrow>
                    (case req_json rq of
                       Rejected code \<Rightarrow> respond d (Response code)
                     | Parsed data \<Rightarrow>
                        (case extract_event data of
                           Inl err \<Rightarrow> respond d (Uncaught err)
                         | Inr ev \<Rightarrow> score_and_award e d repo cfg ev)))))"


section \<open>Notions used to state the properties\<close>

text \<open>
  A request has passed the gate of lines 158 to 178 when its route names a
  registered repository and its signature header is present, starts with
  \<^verbatim>\<open>sha256=\<close> and compares equal to the expected signature.
\<close>

definition verified :: "env \<Rightarrow> db \<Rightarrow> nat \<Rightarrow> request \<Rightarrow> repository \<Rightarrow> bool" where
  "verified e d repo rq cfg =
     (find (\<lambda>r. row_id r = repo) (repositories d) = Some cfg \<and>
      (case req_signature rq of
         None \<Rightarrow> False
       | Some signature \<Rightarrow>
           signature \<noteq> [] \<and> startswith signature ''sha256='' \<and>
           compare_digest
             (expected_signature (hmac_sha256 e) (row_webhook_secret cfg) (req_data rq))
             signature = Inr True))"


definition score_key :: "score \<Rightarrow> nat \<times> json" where
  "score_key s = (score_repo_id s, score_username s)"






section \<open>Sample data\<close>

text \<open>
  A small world to run the definitions in: a stand-in digest that joins key
  and message, a network that knows issue 42 of \<^verbatim>\<open>acme/widget\<close> with the label
  \<^verbatim>\<open>Medium\<close> and answers 404 elsewhere, and a chat server where every channel
  is found.
\<close>

definition sample_reply :: json where
  "sample_reply = JObj [(''labels'', JArr [JObj [(''name'', JStr ''Medium'')]])]"

definition sample_env :: env where
  "sample_env =
     \<lparr>hmac_sha256 = (\<lambda>key msg. key @ msg),
      requests_get = (\<lambda>url. if url = ''https://api.github.com/repos/acme/widget/issues/42''
                              then Reply 200 (Some sample_reply) else Reply 404 None),
      get_channel = (\<lambda>c. True)\<rparr>"

definition offline_env :: env where
  "offline_env = sample_env\<lparr>requests_get := (\<lambda>url. NoReply)\<rparr>"

definition sample_repository :: repository where
  "sample_repository =
     \<lparr>row_id = 1, row_guild_id = 7, row_repo_name = ''acme/widget'',
      row_webhook_secret = ''ab'', row_channel_id = 9, row_admin_user_id = 3\<rparr>"

definition sample_db :: db where
  "sample_db =
     \<lparr>repositories = [sample_repository],
      scores = [\<lparr>score_repo_id = 1, score_username = JStr ''alice'', score_points = 20\<rparr>],
      repositories_seq = 2\<rparr>"

definition pull_request_payload :: "json \<Rightarrow> json \<Rightarrow> json" where
  "pull_request_payload merged body =
     JObj [(''action'', JStr ''closed''),
           (''pull_request'',
            JObj [(''merged'', merged),
                  (''user'', JObj [(''login'', JStr ''alice'')]),
                  (''number'', JNum 3),
                  (''title'', JStr ''Fix the widget''),
                  (''html_url'', JStr ''https://github.com/acme/widget/pull/3''),
                  (''body'', body)])]"

definition signed_request :: "string \<Rightarrow> json \<Rightarrow> request" where
  "signed_request secret data =
     \<lparr>req_signature = Some (expected_signature (hmac_sha256 sample_env) secret []),
      req_data = [], req_json = Parsed data\<rparr>"


section \<open>The gate of the handler\<close>

lemma respond_simps [simp]:
  "res_outcome (respond d out) = out" "res_db (respond d out) = d" "res_notes (respond d out) = []"
  by (simp_all add: respond_def)

lemma github_webhook_verified:
  assumes "verified e d repo rq cfg"
  shows "github_webhook e d repo rq =
           (case req_json rq of
              Rejected code \<Rightarrow> respond d (Response code)
            | Parsed data \<Rightarrow>
               (case extract_event data of
                  Inl err \<Rightarrow> respond d (Uncaught err)
                | Inr ev \<Rightarrow> score_and_award e d repo cfg ev))"
  using assms
  by (auto simp: verified_def github_webhook_def split: option.splits)













section \<open>The ledger\<close>

lemma score_matches_points [simp]:
  "score_matches repo username (s\<lparr>score_points := x\<rparr>) = score_matches repo username s"
  by (simp add: score_matches_def)






text \<open>
  \<^verbatim>\<open>update_score\<close> itself has no guard on the amount: an award of 0 to a new
  contributor inserts a row, and a negative award lowers the total.
\<close>

theorem update_score_without_guard:
  "scores (update_score empty_db 1 (JStr ''alice'') 0) \<noteq> scores empty_db \<and>
   select_points sample_db 1 (JStr ''alice'') = Some 20 \<and>
   select_points (update_score sample_db 1 (JStr ''alice'') (- 5)) 1 (JStr ''alice'') = Some 15"
  by code_simp

text \<open>
  C6, as the code has it. The guard is in the handler (line 198): when the
  scorer gives an amount that is not positive, \<^verbatim>\<open>update_score\<close> is not
  called, the tables stay as they are, nothing is announced and the answer is
  204.
\<close>

theorem award_skipped_without_points:
  assumes "verified e d repo rq cfg"
    and "req_json rq = Parsed data"
    and "extract_event data = Inr (ScoringEvent username pr_number pr_title pr_url issue_number)"
    and "get_points_from_pr_labels (requests_get e) (row_repo_name cfg) issue_number = Inr p"
    and "p \<le> 0"
  shows "github_webhook e d repo rq = respond d (Response 204) \<and>
         res_db (github_webhook e d repo rq) = d"
  using assms by (simp add: github_webhook_verified score_and_award_def)

theorem award_skipped_without_points_witness:
  "get_points_from_pr_labels (requests_get sample_env) (row_repo_name sample_repository) 7 = Inr 0 \<and>
   res_db (github_webhook sample_env sample_db 1
      (signed_request ''ab'' (pull_request_payload (JBool True) (JStr ''Fixes #7'')))) = sample_db"
proof -
  let ?rq = "signed_request ''ab'' (pull_request_payload (JBool True) (JStr ''Fixes #7''))"
  have h1: "verified sample_env sample_db 1 ?rq sample_repository" by code_simp
  have h2: "req_json ?rq = Parsed (pull_request_payload (JBool True) (JStr ''Fixes #7''))"
    by (simp add: signed_request_def)
  have h3: "extract_event (pull_request_payload (JBool True) (JStr ''Fixes #7'')) =
      Inr (ScoringEvent (JStr ''alice'') (JNum 3) (JStr ''Fix the widget'')
             (JStr ''https://github.com/acme/widget/pull/3'') 7)"
    by code_simp
  have h4: "get_points_from_pr_labels (requests_get sample_env) (row_repo_name sample_repository) 7 = Inr 0"
    by code_simp
  have h5: "(0::int) \<le> 0" by simp
  show ?thesis
    using award_skipped_without_points [OF h1 h2 h3 h4 h5] h4 by simp
qed

section \<open>The scorer\<close>

text \<open>
  With a reply of status 200 that lists well-formed labels, the points follow
  the table hard, medium, easy on the lowered names; any other status gives 0.
\<close>

lemma points_of_labels_table:
  "points_of_labels labels =
     (if ''hard'' \<in> set labels then 20
      else if ''medium'' \<in> set labels then 10
      else if ''easy'' \<in> set labels then 5 else 0)"
  by (simp add: points_of_labels_def)

lemma get_points_other_status:
  "net (issue_url repo_name issue_number) = Reply status_code body \<Longrightarrow> status_code \<noteq> 200 \<Longrightarrow>
   get_points_from_pr_labels net repo_name issue_number = Inr 0"
  by (simp add: get_points_from_pr_labels_def)

lemma label_names_well_formed:
  "label_names (map (\<lambda>n. JObj [(''name'', JStr n)]) names) = Inr (map py_lower names)"
  by (induction names) simp_all

lemma get_points_labelled:
  "net (issue_url repo_name issue_number) =
     Reply 200 (Some (JObj [(''labels'', JArr (map (\<lambda>n. JObj [(''name'', JStr n)]) names))])) \<Longrightarrow>
   get_points_from_pr_labels net repo_name issue_number =
     Inr (points_of_labels (map py_lower names))"
  by (simp add: get_points_from_pr_labels_def label_names_well_formed)

text \<open>
  C5 at a failing input. When GitHub cannot be reached, \<^verbatim>\<open>requests.get\<close>
  raises; \<^verbatim>\<open>get_points_from_pr_labels\<close> does not return 0 but lets the
  exception through, and the signed request that led to the call ends with
  the exception uncaught.
\<close>

theorem scorer_raises_when_unreachable:
  "get_points_from_pr_labels (requests_get offline_env) ''acme/widget'' 42 = Inl ConnectionError \<and>
   verified offline_env sample_db 1
      (signed_request ''ab'' (pull_request_payload (JBool True) (JStr ''Fixes #42''))) sample_repository \<and>
   res_outcome (github_webhook offline_env sample_db 1
      (signed_request ''ab'' (pull_request_payload (JBool True) (JStr ''Fixes #42'')))) =
     Uncaught ConnectionError"
  by code_simp


section \<open>Requests that are turned away\<close>

text \<open>
  An unknown repository is answered with 404, a header that is missing or does
  not start with \<^verbatim>\<open>sha256=\<close> with 400, and an ASCII header that differs from
  the expected signature with 403; each time the tables are returned as they
  were.
\<close>

lemma unknown_repository_404:
  "find (\<lambda>r. row_id r = repo) (repositories d) = None \<Longrightarrow>
   github_webhook e d repo rq = respond d (Response 404)"
  by (simp add: github_webhook_def)

lemma malformed_signature_400:
  assumes "find (\<lambda>r. row_id r = repo) (repositories d) = Some cfg"
    and "req_signature rq = None \<or> (\<exists>s. req_signature rq = Some s \<and> \<not> startswith s ''sha256='')"
  shows "github_webhook e d repo rq = respond d (Response 400)"
  using assms by (auto simp: github_webhook_def)


text \<open>
  C2 at a failing input. A header such as \<^verbatim>\<open>sha256=\<close> followed by the byte
  233 passes the test of line 173, and \<^verbatim>\<open>hmac.compare_digest\<close> raises
  TypeError on it: the request ends with an uncaught exception, neither with
  400 nor with 403. The tables are untouched.
\<close>

theorem non_ascii_signature_raises:
  "find (\<lambda>r. row_id r = 1) (repositories sample_db) = Some sample_repository \<and>
   startswith (''sha256='' @ [CHR 0xE9]) ''sha256='' \<and>
   github_webhook sample_env sample_db 1
     \<lparr>req_signature = Some (''sha256='' @ [CHR 0xE9]), req_data = [], req_json = Parsed JNull\<rparr>
   = respond sample_db (Uncaught TypeError)"
  by code_simp

section \<open>Reading the payload\<close>

lemma extract_event_closed:
  assumes "py_get data ''action'' = Inr (JStr ''closed'')"
  shows "extract_event data =
     and_then (py_index data ''pull_request'') (\<lambda>pr.
         and_then (py_index pr ''merged'') (\<lambda>merged.
           if \<not> py_truthy merged then Inr NoEvent
           else and_then (py_index pr ''user'') (\<lambda>user.
             and_then (py_index user ''login'') (\<lambda>username.
               and_then (py_index pr ''number'') (\<lambda>pr_number.
                 and_then (py_index pr ''title'') (\<lambda>pr_title.
                   and_then (py_index pr ''html_url'') (\<lambda>pr_url.
                     and_then (py_get pr ''body'') (\<lambda>b.
                       search_body username pr_number pr_title pr_url b))))))))"
  by (simp add: extract_event_def and_then_def assms)

lemma and_then_simps [simp]:
  "and_then (Inl err) f = Inl err" "and_then (Inr v) f = f v"
  by (simp_all add: and_then_def)

lemma and_then_Inr_iff:
  "and_then r f = Inr y \<longleftrightarrow> (\<exists>v. r = Inr v \<and> f v = Inr y)"
  by (cases r) simp_all

lemma py_index_error: "py_index v k = Inl err \<Longrightarrow> err = KeyError \<or> err = TypeError"
  by (cases v) (auto split: option.splits)








text \<open>
  C10. Payload parsing is not total. For a verified request whose body has
  the action \<^verbatim>\<open>closed\<close>: without a \<^verbatim>\<open>pull_request\<close> the handler raises
  KeyError; with a \<^verbatim>\<open>pull_request\<close> it cannot read \<^verbatim>\<open>merged\<close> from, it raises
  that KeyError or TypeError; and with a true \<^verbatim>\<open>merged\<close> but without one of
  \<^verbatim>\<open>user\<close>, \<^verbatim>\<open>user.login\<close>, \<^verbatim>\<open>number\<close>, \<^verbatim>\<open>title\<close>, \<^verbatim>\<open>html_url\<close>, it raises
  KeyError or TypeError. Nothing catches the exception, so no 204 is sent.
\<close>

theorem malformed_payload_raises:
  assumes "verified e d repo rq cfg" and "req_json rq = Parsed data"
    and "py_get data ''action'' = Inr (JStr ''closed'')"
  shows "(py_index data ''pull_request'' = Inl err \<longrightarrow>
            err = KeyError \<and> github_webhook e d repo rq = respond d (Uncaught KeyError)) \<and>
         (py_index data ''pull_request'' = Inr pr \<longrightarrow>
            (py_index pr ''merged'' = Inl err \<longrightarrow>
               (err = KeyError \<or> err = TypeError) \<and>
               github_webhook e d repo rq = respond d (Uncaught err)) \<and>
            (py_index pr ''merged'' = Inr merged \<and> py_truthy merged \<and>
             (py_index pr ''user'' = Inl err \<or>
              (\<exists>user. py_index pr ''user'' = Inr user \<and> py_index user ''login'' = Inl err) \<or>
              py_index pr ''number'' = Inl err \<or>
              py_index pr ''title'' = Inl err \<or>
              py_index pr ''html_url'' = Inl err) \<longrightarrow>
               (\<exists>err'. (err' = KeyError \<or> err' = TypeError) \<and>
                       github_webhook e d repo rq = respond d (Uncaught err'))))"
proof -
  have hook: "github_webhook e d repo rq = respond d (Uncaught x)" if "extract_event data = Inl x" for x
    using that assms(1,2) by (simp add: github_webhook_verified)
  note ex = extract_event_closed [OF assms(3)]
  have p1: "err = KeyError \<and> github_webhook e d repo rq = respond d (Uncaught KeyError)"
    if "py_index data ''pull_request'' = Inl err"
  proof -
    obtain kvs where "data = JObj kvs"
      using assms(3) by (cases data) simp_all
    then have "err = KeyError" using that by (auto split: option.splits)
    moreover have "extract_event data = Inl err" using that by (simp add: ex)
    ultimately show ?thesis using hook by simp
  qed
  have p2: "(err = KeyError \<or> err = TypeError) \<and> github_webhook e d repo rq = respond d (Uncaught err)"
    if "py_index data ''pull_request'' = Inr pr" "py_index pr ''merged'' = Inl err"
  proof -
    have "extract_event data = Inl err" using that by (simp add: ex)
    then show ?thesis using hook py_index_error [OF that(2)] by simp
  qed
  have p3: "\<exists>err'. (err' = KeyError \<or> err' = TypeError) \<and>
                   github_webhook e d repo rq = respond d (Uncaught err')"
    if pr: "py_index data ''pull_request'' = Inr pr"
      and m: "py_index pr ''merged'' = Inr merged" "py_truthy merged"
      and miss: "py_index pr ''user'' = Inl err \<or>
              (\<exists>user. py_index pr ''user'' = Inr user \<and> py_index user ''login'' = Inl err) \<or>
              py_index pr ''number'' = Inl err \<or>
              py_index pr ''title'' = Inl err \<or>
              py_index pr ''html_url'' = Inl err"
  proof -
    have "\<exists>err'. (err' = KeyError \<or> err' = TypeError) \<and> extract_event data = Inl err'"
    proof (cases "py_index pr ''user''")
      case (Inl x)
      then show ?thesis using pr m py_index_error [OF Inl] by (simp add: ex)
    next
      case user: (Inr user)
      show ?thesis
      proof (cases "py_index user ''login''")
        case (Inl x)
        then show ?thesis using pr m user py_index_error [OF Inl] by (simp add: ex)
      next
        case login: (Inr username)
        show ?thesis
        proof (cases "py_index pr ''number''")
          case (Inl x)
          then show ?thesis using pr m user login py_index_error [OF Inl] by (simp add: ex)
        next
          case number: (Inr pr_number)
          show ?thesis
          proof (cases "py_index pr ''title''")
            case (Inl x)
            then show ?thesis using pr m user login number py_index_error [OF Inl] by (simp add: ex)
          next
            case title: (Inr pr_title)
            show ?thesis
            proof (cases "py_index pr ''html_url''")
              case (Inl x)
              then show ?thesis
                using pr m user login number title py_index_error [OF Inl] by (simp add: ex)
            next
              case (Inr pr_url)
              then show ?thesis using miss user login number title by auto
            qed
          qed
        qed
      qed
    qed
    then show ?thesis using hook by blast
  qed
  show ?thesis using p1 p2 p3 by blast
qed

theorem malformed_payload_raises_witness:
  "verified sample_env sample_db 1 (signed_request ''ab'' (JObj [(''action'', JStr ''closed'')]))
     sample_repository \<and>
   github_webhook sample_env sample_db 1 (signed_request ''ab'' (JObj [(''action'', JStr ''closed'')])) =
     respond sample_db (Uncaught KeyError) \<and>
   (\<exists>err'. github_webhook sample_env sample_db 1
      (signed_request ''ab''
         (JObj [(''action'', JStr ''closed''),
                (''pull_request'', JObj [(''merged'', JBool True), (''user'', JNull)])])) =
     respond sample_db (Uncaught err'))"
proof -
  let ?d1 = "JObj [(''action'', JStr ''closed'')]"
  let ?pr = "JObj [(''merged'', JBool True), (''user'', JNull)]"
  let ?d2 = "JObj [(''action'', JStr ''closed''), (''pull_request'', ?pr)]"
  have v1: "verified sample_env sample_db 1 (signed_request ''ab'' ?d1) sample_repository" by code_simp
  have v2: "verified sample_env sample_db 1 (signed_request ''ab'' ?d2) sample_repository" by code_simp
  have j1: "req_json (signed_request ''ab'' ?d1) = Parsed ?d1" by (simp add: signed_request_def)
  have j2: "req_json (signed_request ''ab'' ?d2) = Parsed ?d2" by (simp add: signed_request_def)
  have a1: "py_get ?d1 ''action'' = Inr (JStr ''closed'')" by simp
  have a2: "py_get ?d2 ''action'' = Inr (JStr ''closed'')" by simp
  have m1: "py_index ?d1 ''pull_request'' = Inl KeyError" by simp
  have m2: "py_index ?d2 ''pull_request'' = Inr ?pr" by simp
  have m3: "py_index ?pr ''merged'' = Inr (JBool True) \<and> py_truthy (JBool True) \<and>
            (py_index ?pr ''user'' = Inl TypeError \<or>
              (\<exists>user. py_index ?pr ''user'' = Inr user \<and> py_index user ''login'' = Inl TypeError) \<or>
              py_index ?pr ''number'' = Inl TypeError \<or>
              py_index ?pr ''title'' = Inl TypeError \<or>
              py_index ?pr ''html_url'' = Inl TypeError)"
    by simp
  note r1 = malformed_payload_raises [OF v1 j1 a1, of KeyError, THEN conjunct1, rule_format, OF m1]
  note r2 = malformed_payload_raises [OF v2 j2 a2, of TypeError ?pr "JBool True",
              THEN conjunct2, rule_format, OF m2, THEN conjunct2, rule_format, OF m3]
  from v1 r1 r2 show ?thesis by blast
qed


section \<open>The closing keyword\<close>




















section \<open>Registration\<close>


















section \<open>The totals over time\<close>






lemma score_key_points [simp]: "score_key (s\<lparr>score_points := x\<rparr>) = score_key s"
  by (simp add: score_key_def)










end
